theory Spec2Isabelle
  imports Complex_Main "HOL-Library.Word" "HOL-Library.Signed_Division"
begin

section \<open>The type float\<close>

text \<open>
  The C++ type \<^verbatim>\<open>float\<close> is read in two ways. For \<^verbatim>\<open>clampf\<close> and the methods
  \<^verbatim>\<open>contains\<close>, \<^verbatim>\<open>intersects\<close> and \<^verbatim>\<open>clamp\<close> of \<^verbatim>\<open>Rect\<close>, whose properties
  turn on the comparisons and sums that the code performs, it is the type \<open>float\<close>
  below: the values of IEEE 754 binary32, that is NaN, the two infinities and the finite
  values, each sum and each difference rounded on its own to the nearest value, ties to
  even. The two zeros compare equal and are one value here. A finite value is carried as
  the real number it denotes; the operations round their results, so they map values of
  binary32 to values of binary32. Elsewhere (the remap, the interpolation and the
  geometry that feeds the transform accumulator) \<^verbatim>\<open>float\<close> is read as \<^typ>\<open>real\<close>, the
  type the specification gives to coordinates and parameters: the arithmetic of the
  source without rounding, infinities or NaN.
\<close>

datatype float = NaN | PInf | MInf | Fin real

text \<open>The comparisons \<^verbatim>\<open><\<close> and \<^verbatim>\<open><=\<close>: false whenever an operand is NaN.\<close>

fun flt :: "float \<Rightarrow> float \<Rightarrow> bool" where
  "flt NaN b = False"
| "flt a NaN = False"
| "flt PInf b = False"
| "flt a PInf = True"
| "flt a MInf = False"
| "flt MInf b = True"
| "flt (Fin a) (Fin b) = (a < b)"

fun fle :: "float \<Rightarrow> float \<Rightarrow> bool" where
  "fle NaN b = False"
| "fle a NaN = False"
| "fle a PInf = True"
| "fle PInf b = False"
| "fle MInf b = True"
| "fle a MInf = False"
| "fle (Fin a) (Fin b) = (a \<le> b)"

text \<open>The comparison \<^verbatim>\<open>a > b\<close>.\<close>

definition fgt :: "float \<Rightarrow> float \<Rightarrow> bool" where
  "fgt a b = flt b a"

text \<open>The integer nearest to \<open>q\<close>, the even one of the two when \<open>q\<close> lies halfway.\<close>

definition round_even :: "real \<Rightarrow> int" where
  "round_even q =
     (let f = \<lfloor>q\<rfloor>; d = q - of_int f
      in if d < 1 / 2 then f else if 1 / 2 < d then f + 1 else if even f then f else f + 1)"

text \<open>
  The exponent of the unit in the last place of binary32 at \<open>v\<close>: 24 bits of
  precision, and the fixed exponent \<open>-149\<close> below the smallest normal magnitude
  \<open>2^-126\<close>.
\<close>

definition fexp :: "real \<Rightarrow> int" where
  "fexp v = (if \<bar>v\<bar> < 2 powi (- 126) then - 149 else \<lfloor>log 2 \<bar>v\<bar>\<rfloor> - 23)"

definition round32 :: "real \<Rightarrow> real" where
  "round32 v = of_int (round_even (v / 2 powi fexp v)) * 2 powi fexp v"

text \<open>The binary32 value of a real result: it overflows to an infinity from \<open>2^128\<close> on.\<close>

definition to_float :: "real \<Rightarrow> float" where
  "to_float v =
     (let r = round32 v
      in if 2 ^ 128 \<le> r then PInf else if r \<le> - (2 ^ 128) then MInf else Fin r)"

text \<open>The operators \<^verbatim>\<open>+\<close> and \<^verbatim>\<open>-\<close> on \<^verbatim>\<open>float\<close>.\<close>

fun fadd :: "float \<Rightarrow> float \<Rightarrow> float" where
  "fadd NaN b = NaN"
| "fadd a NaN = NaN"
| "fadd PInf MInf = NaN"
| "fadd MInf PInf = NaN"
| "fadd PInf b = PInf"
| "fadd a PInf = PInf"
| "fadd MInf b = MInf"
| "fadd a MInf = MInf"
| "fadd (Fin a) (Fin b) = to_float (a + b)"

fun fsub :: "float \<Rightarrow> float \<Rightarrow> float" where
  "fsub NaN b = NaN"
| "fsub a NaN = NaN"
| "fsub PInf PInf = NaN"
| "fsub MInf MInf = NaN"
| "fsub PInf b = PInf"
| "fsub a MInf = PInf"
| "fsub MInf b = MInf"
| "fsub a PInf = MInf"
| "fsub (Fin a) (Fin b) = to_float (a - b)"

text \<open>A sum or a difference of two finite values is exact when no rounding takes place.\<close>

definition exact_add :: "real \<Rightarrow> real \<Rightarrow> bool" where
  "exact_add a b \<longleftrightarrow> fadd (Fin a) (Fin b) = Fin (a + b)"

definition exact_sub :: "real \<Rightarrow> real \<Rightarrow> bool" where
  "exact_sub a b \<longleftrightarrow> fsub (Fin a) (Fin b) = Fin (a - b)"

section \<open>Scalar kernel (include/util.hpp)\<close>

text \<open>
  The C++ type \<^verbatim>\<open>int\<close> is a 32-bit word read in two's complement, and an operation
  whose behaviour C++ leaves undefined (division by zero, signed overflow, a read outside
  an array) returns \<open>None\<close>.
\<close>

definition clampf :: "float \<Rightarrow> float \<Rightarrow> float \<Rightarrow> float" where
  "clampf v lo hi =
     (let v1 = (if fgt v hi then hi else v);
          v2 = (if flt v1 lo then lo else v1)
      in v2)"

definition mapf :: "real \<Rightarrow> real \<Rightarrow> real \<Rightarrow> real \<Rightarrow> real \<Rightarrow> real" where
  "mapf v xMin xMax yMin yMax = yMin + (v - xMin) / (xMax - xMin) * (yMax - yMin)"

definition crossf :: "real \<Rightarrow> real \<Rightarrow> real \<Rightarrow> real" where
  "crossf a b fr = (1 - fr) * a + fr * b"

type_synonym cint = "32 word"

definition INT_MIN :: int where
  "INT_MIN = - (2 ^ 31)"

definition INT_MAX :: int where
  "INT_MAX = 2 ^ 31 - 1"

text \<open>
  The operator \<^verbatim>\<open>%\<close> on \<^verbatim>\<open>int\<close>: the remainder of the division that truncates
  towards zero, which takes the sign of the dividend. It is undefined for a zero divisor
  and where the quotient overflows.
\<close>

definition c_rem :: "cint \<Rightarrow> cint \<Rightarrow> cint option" where
  "c_rem a b =
     (if sint b = 0 then None
      else if sint a = INT_MIN \<and> sint b = - 1 then None
      else Some (word_of_int (sint a smod sint b)))"

text \<open>The operator \<^verbatim>\<open>+\<close> on \<^verbatim>\<open>int\<close>, undefined on overflow.\<close>

definition c_add :: "cint \<Rightarrow> cint \<Rightarrow> cint option" where
  "c_add a b =
     (if INT_MIN \<le> sint a + sint b \<and> sint a + sint b \<le> INT_MAX then Some (a + b)
      else None)"

definition eucMod :: "cint \<Rightarrow> cint \<Rightarrow> cint option" where
  "eucMod a base =
     (case c_rem a base of
        None \<Rightarrow> None
      | Some md \<Rightarrow> if sint md < 0 then c_add md base else Some md)"

text \<open>
  The conversion of a \<^verbatim>\<open>float\<close> to \<^verbatim>\<open>int\<close> in \<^verbatim>\<open>int xi = x\<close> drops the fraction
  (it rounds towards zero); \<open>xi\<close> is kept as an unbounded integer here. The array behind
  the pointer \<open>p\<close> is a list, and a read at an index outside it is \<open>None\<close>.
\<close>

definition float_to_int :: "real \<Rightarrow> int" where
  "float_to_int v = (if v < 0 then \<lceil>v\<rceil> else \<lfloor>v\<rfloor>)"

definition read_at :: "real list \<Rightarrow> int \<Rightarrow> real option" where
  "read_at p i = (if 0 \<le> i \<and> i < int (length p) then Some (p ! nat i) else None)"

definition interpf :: "real list \<Rightarrow> real \<Rightarrow> real option" where
  "interpf p v =
     (let xi = float_to_int v;
          xf = v - of_int xi
      in case read_at p xi of
           None \<Rightarrow> None
         | Some a \<Rightarrow>
             (case read_at p (xi + 1) of
                None \<Rightarrow> None
              | Some b \<Rightarrow> Some (crossf a b xf)))"

section \<open>Vectors and rectangles (include/util.hpp)\<close>

text \<open>
  The structs \<^verbatim>\<open>Vec\<close> and \<^verbatim>\<open>Rect\<close>, over the reading of \<^verbatim>\<open>float\<close> in use:
  \<open>float Vec\<close> and \<open>float Rect\<close> for the methods of \<^verbatim>\<open>Rect\<close> that compare
  coordinates, \<open>real Vec\<close> and \<open>real Rect\<close> for the geometry of the transform.
\<close>

record 'a Vec =
  x :: 'a
  y :: 'a

definition Vec_neg :: "real Vec \<Rightarrow> real Vec" where
  "Vec_neg a = \<lparr>x = - x a, y = - y a\<rparr>"

definition Vec_plus :: "real Vec \<Rightarrow> real Vec \<Rightarrow> real Vec" where
  "Vec_plus a b = \<lparr>x = x a + x b, y = y a + y b\<rparr>"

definition Vec_mult :: "real Vec \<Rightarrow> real \<Rightarrow> real Vec" where
  "Vec_mult a s = \<lparr>x = x a * s, y = y a * s\<rparr>"

definition Vec_div :: "real Vec \<Rightarrow> real \<Rightarrow> real Vec" where
  "Vec_div a s = \<lparr>x = x a / s, y = y a / s\<rparr>"

record 'a Rect =
  pos :: "'a Vec"
  size_v :: "'a Vec"

definition Rect_contains :: "float Rect \<Rightarrow> float Vec \<Rightarrow> bool" where
  "Rect_contains r v \<longleftrightarrow>
     fle (x (pos r)) (x v) \<and> flt (x v) (fadd (x (pos r)) (x (size_v r)))
     \<and> fle (y (pos r)) (y v) \<and> flt (y v) (fadd (y (pos r)) (y (size_v r)))"

definition Rect_intersects :: "float Rect \<Rightarrow> float Rect \<Rightarrow> bool" where
  "Rect_intersects a r \<longleftrightarrow>
     (fgt (fadd (x (pos a)) (x (size_v a))) (x (pos r))
        \<and> fgt (fadd (x (pos r)) (x (size_v r))) (x (pos a)))
     \<and> (fgt (fadd (y (pos a)) (y (size_v a))) (y (pos r))
        \<and> fgt (fadd (y (pos r)) (y (size_v r))) (y (pos a)))"

definition Rect_getCenter :: "real Rect \<Rightarrow> real Vec" where
  "Rect_getCenter r = Vec_plus (pos r) (Vec_mult (size_v r) 0.5)"

definition Rect_clamp :: "float Rect \<Rightarrow> float Rect \<Rightarrow> float Rect" where
  "Rect_clamp a bound =
     \<lparr>pos = \<lparr>x = clampf (x (pos a)) (x (pos bound))
                  (fsub (fadd (x (pos bound)) (x (size_v bound))) (x (size_v a))),
             y = clampf (y (pos a)) (y (pos bound))
                  (fsub (fadd (y (pos bound)) (y (size_v bound))) (y (size_v a)))\<rparr>,
      size_v = size_v a\<rparr>"

text \<open>The rectangle \<^verbatim>\<open>Rect(Vec(px, py), Vec(w, h))\<close> over the reals.\<close>

definition rect_at :: "real \<Rightarrow> real \<Rightarrow> real \<Rightarrow> real \<Rightarrow> real Rect" where
  "rect_at px py w h = \<lparr>pos = \<lparr>x = px, y = py\<rparr>, size_v = \<lparr>x = w, y = h\<rparr>\<rparr>"

text \<open>The vector and the rectangle of finite floats with the given real coordinates.\<close>

definition Vec_Fin :: "real Vec \<Rightarrow> float Vec" where
  "Vec_Fin v = \<lparr>x = Fin (x v), y = Fin (y v)\<rparr>"

definition Rect_Fin :: "real Rect \<Rightarrow> float Rect" where
  "Rect_Fin r = \<lparr>pos = Vec_Fin (pos r), size_v = Vec_Fin (size_v r)\<rparr>"

section \<open>Spec-side notions for rectangles\<close>

text \<open>
  The specification's reading of \<^verbatim>\<open>contains\<close>: the half-open test on the real
  coordinates, with the exact sums.
\<close>

definition spec_contains :: "real Rect \<Rightarrow> real Vec \<Rightarrow> bool" where
  "spec_contains r v \<longleftrightarrow>
     x (pos r) \<le> x v \<and> x v < x (pos r) + x (size_v r)
     \<and> y (pos r) \<le> y v \<and> y v < y (pos r) + y (size_v r)"

text \<open>
  Two open intervals \<open>(l1, h1)\<close> and \<open>(l2, h2)\<close> of reals overlap when they share a
  point, which is the case exactly when the larger left end lies below the smaller right
  end.
\<close>

definition open_overlap :: "real \<Rightarrow> real \<Rightarrow> real \<Rightarrow> real \<Rightarrow> bool" where
  "open_overlap l1 h1 l2 h2 \<longleftrightarrow> max l1 l2 < min h1 h2"

text \<open>
  The specification's reading of \<^verbatim>\<open>intersects\<close>: the open intervals of the two
  rectangles overlap on both axes.
\<close>

definition spec_intersects :: "real Rect \<Rightarrow> real Rect \<Rightarrow> bool" where
  "spec_intersects a r \<longleftrightarrow>
     open_overlap (x (pos a)) (x (pos a) + x (size_v a)) (x (pos r)) (x (pos r) + x (size_v r))
     \<and> open_overlap (y (pos a)) (y (pos a) + y (size_v a)) (y (pos r)) (y (pos r) + y (size_v r))"

text \<open>
  The specification's clamp of a coordinate \<open>p\<close> of a rectangle of extent \<open>s\<close> into a
  bound at \<open>bp\<close> of extent \<open>bs\<close>: into the interval from \<open>bp\<close> to \<open>bp + bs - s\<close>, and
  \<open>bp\<close> when the rectangle is larger than the bound.
\<close>

definition spec_clamp_coord :: "real \<Rightarrow> real \<Rightarrow> real \<Rightarrow> real \<Rightarrow> real" where
  "spec_clamp_coord p s bp bs = (if s \<le> bs then max bp (min p (bp + bs - s)) else bp)"

section \<open>Affine transform accumulator\<close>

text \<open>
  Modelled from the spec: the class \<^verbatim>\<open>TransformWidget\<close> that \<^verbatim>\<open>SVGKnob::step\<close>
  drives (\<^verbatim>\<open>identity\<close>, \<^verbatim>\<open>scale\<close>, \<^verbatim>\<open>translate\<close>, \<^verbatim>\<open>rotate\<close>) is declared and
  defined outside the sources at hand. Following the specification, a transform is a 2D
  affine map, \<^verbatim>\<open>identity\<close> resets the accumulator, and each further call composes its
  own map onto the accumulator so that the map of the latest call is the first to act on
  a point, the accumulated transform acting on the result.
\<close>

record Transform =
  xx :: real
  xy :: real
  tx :: real
  yx :: real
  yy :: real
  ty :: real


text \<open>\<open>Transform_compose t u\<close> is the map that applies \<open>u\<close> and then \<open>t\<close>.\<close>

definition Transform_compose :: "Transform \<Rightarrow> Transform \<Rightarrow> Transform" where
  "Transform_compose t u =
     \<lparr>xx = xx t * xx u + xy t * yx u,
      xy = xx t * xy u + xy t * yy u,
      tx = xx t * tx u + xy t * ty u + tx t,
      yx = yx t * xx u + yy t * yx u,
      yy = yx t * xy u + yy t * yy u,
      ty = yx t * tx u + yy t * ty u + ty t\<rparr>"

definition TransformWidget_identity :: "Transform \<Rightarrow> Transform" where
  "TransformWidget_identity t = \<lparr>xx = 1, xy = 0, tx = 0, yx = 0, yy = 1, ty = 0\<rparr>"

definition TransformWidget_translate :: "real Vec \<Rightarrow> Transform \<Rightarrow> Transform" where
  "TransformWidget_translate delta t =
     Transform_compose t \<lparr>xx = 1, xy = 0, tx = x delta, yx = 0, yy = 1, ty = y delta\<rparr>"

definition TransformWidget_rotate :: "real \<Rightarrow> Transform \<Rightarrow> Transform" where
  "TransformWidget_rotate angle t =
     Transform_compose t
       \<lparr>xx = cos angle, xy = - sin angle, tx = 0, yx = sin angle, yy = cos angle, ty = 0\<rparr>"

definition TransformWidget_scale :: "real Vec \<Rightarrow> Transform \<Rightarrow> Transform" where
  "TransformWidget_scale s t =
     Transform_compose t \<lparr>xx = x s, xy = 0, tx = 0, yx = 0, yy = y s, ty = 0\<rparr>"

section \<open>Rotary control node (src/app/SVGKnob.cpp)\<close>

text \<open>
  Modelled from the spec: \<^verbatim>\<open>rescalef\<close>, which \<^verbatim>\<open>SVGKnob::step\<close> calls, is not
  defined in util.hpp. The specification names the operation
  \<^verbatim>\<open>map(x, xMin, xMax, yMin, yMax)\<close>, the affine remap that util.hpp provides under the
  name \<^verbatim>\<open>mapf\<close>.
\<close>

definition rescalef :: "real \<Rightarrow> real \<Rightarrow> real \<Rightarrow> real \<Rightarrow> real \<Rightarrow> real" where
  "rescalef v xMin xMax yMin yMax = yMin + (v - xMin) / (xMax - xMin) * (yMax - yMin)"

text \<open>
  Modelled from the spec: the overload of \<^verbatim>\<open>Vec::div\<close> that takes a \<^verbatim>\<open>Vec\<close>, used
  by \<^verbatim>\<open>SVGKnob::step\<close> in \<^verbatim>\<open>box.size.div(sw->box.size)\<close>, is not declared in util.hpp.
  The specification writes it \<^verbatim>\<open>displayBoxSize / childNaturalSize\<close>, the scale that
  fits the child to the node's box: the quotient per axis.
\<close>

definition Vec_div_vec :: "real Vec \<Rightarrow> real Vec \<Rightarrow> real Vec" where
  "Vec_div_vec a b = \<lparr>x = x a / x b, y = y a / y b\<rparr>"

text \<open>
  The fields that \<^verbatim>\<open>SVGKnob\<close> inherits from its base class \<^verbatim>\<open>Knob\<close>, the only part of
  the object that \<^verbatim>\<open>Knob::onChange\<close> works on.
\<close>

record Knob =
  "value" :: real
  minValue :: real
  maxValue :: real

text \<open>
  The cached raster of the child is kept as the size and the transform it was rendered
  with.
\<close>

record Raster =
  raster_size :: "real Vec"
  raster_transform :: Transform

text \<open>
  The node: its \<^verbatim>\<open>Knob\<close> part, the angle range, the dirty flag and cache of its
  \<^verbatim>\<open>FramebufferWidget\<close> part, its own box, the transform of the widget \<^verbatim>\<open>tw\<close> and
  the box of the graphic \<^verbatim>\<open>sw\<close>.
\<close>

record SVGKnob =
  knob :: Knob
  minAngle :: real
  maxAngle :: real
  dirty :: bool
  cache :: "Raster option"
  box :: "real Rect"
  tw :: Transform
  sw_box :: "real Rect"

text \<open>
  Modelled from the spec: \<^verbatim>\<open>FramebufferWidget::step\<close> is defined outside the sources at
  hand. Following the specification of the cached render node, when the node is dirty it
  renders the child into the cache at the current size and clears the flag, and otherwise
  leaves the cache as it is; a box of non-positive area skips the rendering and leaves the
  cache empty.
\<close>

definition FramebufferWidget_step :: "SVGKnob \<Rightarrow> SVGKnob" where
  "FramebufferWidget_step k =
     (if dirty k then
        (if x (size_v (box k)) * y (size_v (box k)) \<le> 0 then k\<lparr>cache := None\<rparr>
         else k\<lparr>cache := Some \<lparr>raster_size = size_v (box k), raster_transform = tw k\<rparr>,
                dirty := False\<rparr>)
      else k)"

definition SVGKnob_step :: "SVGKnob \<Rightarrow> SVGKnob" where
  "SVGKnob_step k =
     FramebufferWidget_step
       (if dirty k then
          (let angle = rescalef (value (knob k)) (minValue (knob k)) (maxValue (knob k))
                         (minAngle k) (maxAngle k);
               t0 = TransformWidget_identity (tw k);
               t1 = TransformWidget_scale (Vec_div_vec (size_v (box k)) (size_v (sw_box k))) t0;
               center = Rect_getCenter (sw_box k);
               t2 = TransformWidget_translate center t1;
               t3 = TransformWidget_rotate angle t2;
               t4 = TransformWidget_translate (Vec_neg center) t3
           in k\<lparr>tw := t4\<rparr>)
        else k)"

text \<open>
  \<^verbatim>\<open>Knob::onChange\<close> is defined outside the sources at hand. It is a method of the base
  class, so it is taken as a parameter: any function on the \<^verbatim>\<open>Knob\<close> fields.
\<close>

definition SVGKnob_onChange :: "(Knob \<Rightarrow> Knob) \<Rightarrow> SVGKnob \<Rightarrow> SVGKnob" where
  "SVGKnob_onChange Knob_onChange k =
     (let k1 = k\<lparr>dirty := True\<rparr>
      in k1\<lparr>knob := Knob_onChange (knob k1)\<rparr>)"


section \<open>Properties of the scalar kernel\<close>

subsection \<open>Rounding to binary32\<close>

lemma round_even_of_int [simp]: "round_even (of_int z) = z"
  by (simp add: round_even_def)

lemma round_even_0 [simp]: "round_even 0 = 0"
  using round_even_of_int [of 0] by simp

lemma round_even_numeral [simp]: "round_even (numeral n) = numeral n"
  using round_even_of_int [of "numeral n"] by simp

lemma round_even_le: "q \<le> of_int z \<Longrightarrow> round_even q \<le> z"
  unfolding round_even_def Let_def by (auto; linarith)

lemma fexp_normal:
  assumes "2 powi k \<le> \<bar>v\<bar>" and "\<bar>v\<bar> < 2 powi (k + 1)" and "- 126 \<le> k"
  shows "fexp v = k - 23"
proof -
  have pos: "0 < \<bar>v\<bar>" using assms(1) by (smt (verit) zero_less_power_int)
  have "2 powi (- 126) \<le> (2::real) powi k"
    using assms(3) by (intro power_int_increasing) simp_all
  then have nsub: "\<not> \<bar>v\<bar> < 2 powi (- 126)" using assms(1) by linarith
  have a: "(2::real) powr (real_of_int k) = 2 powi k"
    using powr_real_of_int' [of 2 k] by simp
  have b: "(2::real) powr (real_of_int k + 1) = 2 powi (k + 1)"
    using powr_real_of_int' [of 2 "k + 1"] by simp
  have "2 powr (real_of_int k) \<le> \<bar>v\<bar> \<and> \<bar>v\<bar> < 2 powr (real_of_int k + 1)"
    unfolding a b using assms(1,2) by simp
  then have "\<lfloor>log 2 \<bar>v\<bar>\<rfloor> = k"
    using floor_log_eq_powr_iff [of "\<bar>v\<bar>" 2 k] pos by simp
  then show ?thesis using nsub by (simp add: fexp_def)
qed

lemma fexp_ge: "- 149 \<le> fexp v"
proof (cases "\<bar>v\<bar> < 2 powi (- 126)")
  case True
  then show ?thesis by (simp add: fexp_def)
next
  case False
  then have ge: "2 powi (- 126) \<le> \<bar>v\<bar>" by simp
  then have pos: "0 < \<bar>v\<bar>" by (smt (verit) zero_less_power_int)
  have "(2::real) powr (real_of_int (- 126)) = 2 powi (- 126)"
    using powr_real_of_int' [of 2 "- 126"] by simp
  then have "2 powr (real_of_int (- 126)) \<le> \<bar>v\<bar>" using ge by simp
  then have "real_of_int (- 126) \<le> log 2 \<bar>v\<bar>"
    using pos by (simp add: le_log_iff)
  then have fl: "(- 126) \<le> \<lfloor>log 2 \<bar>v\<bar>\<rfloor>" by (subst le_floor_iff)
  have "fexp v = \<lfloor>log 2 \<bar>v\<bar>\<rfloor> - 23" using False by (simp add: fexp_def)
  then show ?thesis using fl by linarith
qed

text \<open>Above the subnormal range the magnitude is at least \<open>2^(fexp v + 23)\<close>.\<close>

lemma fexp_lower:
  assumes "- 149 < fexp v"
  shows "2 powi (fexp v + 23) \<le> \<bar>v\<bar>"
proof -
  have nsub: "\<not> \<bar>v\<bar> < 2 powi (- 126)"
    using assms by (auto simp: fexp_def split: if_splits)
  then have pos: "0 < \<bar>v\<bar>" by (smt (verit) zero_less_power_int)
  define k where "k = \<lfloor>log 2 \<bar>v\<bar>\<rfloor>"
  have e: "fexp v = k - 23" using nsub by (simp add: fexp_def k_def)
  have "2 powr (real_of_int k) \<le> \<bar>v\<bar>"
    using floor_log_eq_powr_iff [of "\<bar>v\<bar>" 2 k] pos by (simp add: k_def)
  moreover have "(2::real) powr (real_of_int k) = 2 powi k"
    using powr_real_of_int' [of 2 k] by simp
  ultimately show ?thesis by (simp add: e)
qed

lemma fexp_upper: "\<bar>v\<bar> < 2 powi (fexp v + 24)"
proof (cases "\<bar>v\<bar> < 2 powi (- 126)")
  case True
  have "(2::real) powi (- 126) \<le> 2 powi (- 125)"
    by (intro power_int_increasing) simp_all
  then show ?thesis using True by (simp add: fexp_def)
next
  case False
  then have pos: "0 < \<bar>v\<bar>" by (smt (verit) zero_less_power_int)
  define k where "k = \<lfloor>log 2 \<bar>v\<bar>\<rfloor>"
  have e: "fexp v = k - 23" using False by (simp add: fexp_def k_def)
  have "\<bar>v\<bar> < 2 powr (real_of_int k + 1)"
    using floor_log_eq_powr_iff [of "\<bar>v\<bar>" 2 k] pos by (simp add: k_def)
  moreover have "(2::real) powr (real_of_int k + 1) = 2 powi (k + 1)"
    using powr_real_of_int' [of 2 "k + 1"] by simp
  moreover have "fexp v + 24 = k + 1" by (simp add: e)
  ultimately show ?thesis by (simp only:)
qed

text \<open>A multiple of \<open>2^e\<close> is a multiple of \<open>2^E\<close> for every \<open>E\<close> up to \<open>e\<close>.\<close>

lemma grid_coarser:
  assumes "E \<le> e"
  shows "\<exists>z. of_int m * 2 powi e = of_int z * (2::real) powi E"
proof -
  have "(2::real) powi e = 2 powi (e - E) * 2 powi E"
    by (simp flip: power_int_add)
  moreover have "(2::real) powi (e - E) = of_int (2 ^ nat (e - E))"
    using assms by (simp add: power_int_def)
  ultimately have "of_int m * 2 powi e = of_int (m * 2 ^ nat (e - E)) * (2::real) powi E"
    by simp
  then show ?thesis ..
qed

lemma round32_grid: "v = of_int z * 2 powi fexp v \<Longrightarrow> round32 v = v"
proof -
  assume a: "v = of_int z * 2 powi fexp v"
  have "v / 2 powi fexp v = of_int z"
    by (subst a) simp
  then show ?thesis using a by (simp add: round32_def)
qed

text \<open>
  Every value \<open>m * 2^e\<close> with \<open>|m| < 2^24\<close> and \<open>e\<close> from \<open>-149\<close> on is its own
  rounding.
\<close>

lemma round32_exact:
  assumes v: "v = of_int m * 2 powi e" and m: "\<bar>m\<bar> < 2 ^ 24" and e: "- 149 \<le> e"
  shows "round32 v = v"
proof -
  have "fexp v \<le> e"
  proof (rule ccontr)
    assume "\<not> fexp v \<le> e"
    then have gt: "e < fexp v" by simp
    then have "- 149 < fexp v" using e by simp
    then have lo: "2 powi (fexp v + 23) \<le> \<bar>v\<bar>" by (rule fexp_lower)
    have "\<bar>real_of_int m\<bar> < 2 ^ 24"
      using m by (simp flip: of_int_abs add: of_int_less_numeral_power_cancel_iff)
    then have "\<bar>v\<bar> < 2 ^ 24 * 2 powi e"
      by (simp add: v abs_mult)
    also have "\<dots> = 2 powi (e + 24)"
      by (simp add: power_int_add)
    also have "\<dots> \<le> 2 powi (fexp v + 23)"
      using gt by (intro power_int_increasing) simp_all
    finally show False using lo by simp
  qed
  then obtain z where "of_int m * 2 powi e = of_int z * (2::real) powi fexp v"
    using grid_coarser by blast
  then have "v = of_int z * 2 powi fexp v" using v by simp
  then show ?thesis by (rule round32_grid)
qed

lemma round32_0 [simp]: "round32 0 = 0"
  by (simp add: round32_def)

lemma round32_numeral: "(numeral n :: int) < 2 ^ 24 \<Longrightarrow> round32 (numeral n) = numeral n"
  using round32_exact [of "numeral n" "numeral n" 0] by simp

text \<open>Rounding never passes a value that is its own rounding.\<close>

lemma round32_le_exact:
  assumes le: "v \<le> w" and w: "round32 w = w"
  shows "round32 v \<le> w"
proof (cases "fexp v \<le> fexp w")
  case True
  have "w = of_int (round_even (w / 2 powi fexp w)) * 2 powi fexp w"
    using w by (simp add: round32_def)
  then obtain z where z: "w = of_int z * 2 powi fexp v"
    using grid_coarser [OF True] by metis
  have "v / 2 powi fexp v \<le> w / 2 powi fexp v"
    using le by (simp add: divide_right_mono)
  also have "\<dots> = of_int z"
    by (subst z) simp
  finally have "round_even (v / 2 powi fexp v) \<le> z" by (rule round_even_le)
  then have "real_of_int (round_even (v / 2 powi fexp v)) \<le> of_int z" by simp
  then have "round32 v \<le> of_int z * 2 powi fexp v"
    unfolding round32_def by (intro mult_right_mono) simp_all
  then show ?thesis using z by simp
next
  case False
  then have lt: "fexp w < fexp v" by simp
  then have nv: "- 149 < fexp v" using fexp_ge [of w] by simp
  have wv: "\<bar>w\<bar> < 2 powi (fexp v + 23)"
  proof -
    have "\<bar>w\<bar> < 2 powi (fexp w + 24)" by (rule fexp_upper)
    also have "\<dots> \<le> 2 powi (fexp v + 23)"
      using lt by (intro power_int_increasing) simp_all
    finally show ?thesis .
  qed
  have vlo: "2 powi (fexp v + 23) \<le> \<bar>v\<bar>" using nv by (rule fexp_lower)
  have neg: "v < 0" using le wv vlo by linarith
  then have "v \<le> - (2 powi (fexp v + 23))" using vlo by simp
  then have "v / 2 powi fexp v \<le> - (2 powi (fexp v + 23)) / 2 powi fexp v"
    by (rule divide_right_mono) simp
  also have "- ((2::real) powi (fexp v + 23)) / 2 powi fexp v = of_int (- (2 ^ 23))"
    by (simp add: power_int_add)
  finally have "round_even (v / 2 powi fexp v) \<le> - (2 ^ 23)" by (rule round_even_le)
  then have "real_of_int (round_even (v / 2 powi fexp v)) \<le> - (2 ^ 23)"
    by (metis of_int_le_iff of_int_minus of_int_numeral of_int_power)
  then have "round32 v \<le> - (2 ^ 23) * 2 powi fexp v"
    unfolding round32_def by (intro mult_right_mono) simp_all
  also have "- (2 ^ 23) * 2 powi fexp v = - ((2::real) powi (fexp v + 23))"
    by (simp add: power_int_add)
  finally show ?thesis using wv by linarith
qed

subsection \<open>Sums of floats\<close>

lemma to_float_exact:
  "round32 v = v \<Longrightarrow> - (2 ^ 128) < v \<Longrightarrow> v < 2 ^ 128 \<Longrightarrow> to_float v = Fin v"
  by (simp add: to_float_def)

lemma to_float_0 [simp]: "to_float 0 = Fin 0"
  by (simp add: to_float_def)

lemma to_float_numeral:
  "(numeral n :: int) < 2 ^ 24 \<Longrightarrow> to_float (numeral n) = Fin (numeral n)"
proof -
  assume n: "(numeral n :: int) < 2 ^ 24"
  then have "(numeral n :: real) < 2 ^ 24"
    by (metis of_int_less_iff of_int_numeral of_int_power)
  moreover have "(2::real) ^ 24 < 2 ^ 128" by simp
  ultimately have "(numeral n :: real) < 2 ^ 128" by (rule less_trans)
  moreover have "- (2 ^ 128) < (numeral n :: real)" by simp
  ultimately show ?thesis using round32_numeral [OF n] by (intro to_float_exact)
qed

lemma to_float_neg_numeral:
  "(numeral n :: int) < 2 ^ 24 \<Longrightarrow> to_float (- numeral n) = Fin (- numeral n)"
proof -
  assume n: "(numeral n :: int) < 2 ^ 24"
  then have "(numeral n :: real) < 2 ^ 24"
    by (metis of_int_less_iff of_int_numeral of_int_power)
  moreover have "(2::real) ^ 24 < 2 ^ 128" by simp
  ultimately have "(numeral n :: real) < 2 ^ 128" by (rule less_trans)
  then have "- (2 ^ 128) < - (numeral n :: real)" by simp
  moreover have "- (numeral n :: real) < 2 ^ 128" by simp
  moreover have "round32 (- numeral n) = - numeral n"
    using n round32_exact [of "- numeral n" "- numeral n" 0] by simp
  ultimately show ?thesis by (intro to_float_exact)
qed

lemma to_float_Fin_iff:
  "to_float v = Fin w \<longleftrightarrow> round32 v = w \<and> - (2 ^ 128) < w \<and> w < 2 ^ 128"
  by (auto simp: to_float_def Let_def)

lemma exact_add_round: "exact_add a b \<Longrightarrow> round32 (a + b) = a + b \<and> a + b < 2 ^ 128"
  by (simp add: exact_add_def to_float_Fin_iff)

text \<open>Some sums at the end of the range where every integer is a float.\<close>

lemma round32_16777217: "round32 16777217 = 16777216"
proof -
  have "fexp 16777217 = 24 - 23"
    by (rule fexp_normal) simp_all
  then show ?thesis by (simp add: round32_def round_even_def)
qed

lemma round32_16777219: "round32 16777219 = 16777220"
proof -
  have "fexp 16777219 = 24 - 23"
    by (rule fexp_normal) simp_all
  then show ?thesis by (simp add: round32_def round_even_def)
qed

lemma round32_16777223: "round32 16777223 = 16777224"
proof -
  have "fexp 16777223 = 24 - 23"
    by (rule fexp_normal) simp_all
  then show ?thesis by (simp add: round32_def round_even_def)
qed

lemma round32_16777213_5: "round32 (33554427 / 2) = 16777214"
proof -
  have "fexp (33554427 / 2) = 23 - 23"
    by (rule fexp_normal) simp_all
  moreover have "\<lfloor>33554427 / 2 :: real\<rfloor> = 16777213"
    by (simp add: floor_eq_iff)
  ultimately show ?thesis by (simp add: round32_def round_even_def)
qed

lemma round32_16777222: "round32 16777222 = 16777222"
  using round32_exact [of 16777222 8388611 1] by simp

lemma to_float_big:
  "to_float 16777217 = Fin 16777216" "to_float 16777219 = Fin 16777220"
  "to_float 16777223 = Fin 16777224" "to_float 16777222 = Fin 16777222"
  "to_float (33554427 / 2) = Fin 16777214"
  by (simp_all add: to_float_def round32_16777217 round32_16777219 round32_16777223
      round32_16777222 round32_16777213_5)

subsection \<open>Clamping\<close>

text \<open>
  For every value other than NaN, \<open>clampf\<close> returns the lower bound when the bounds are
  crossed; with bounds in order it returns the upper bound for a value above it, the lower
  bound for a value below it and the value itself otherwise.
\<close>

lemma clampf_crossed: "v \<noteq> NaN \<Longrightarrow> fgt lo hi \<Longrightarrow> clampf v lo hi = lo"
  by (cases v; cases lo; cases hi) (auto simp: clampf_def fgt_def)

lemma clampf_ordered:
  "fle lo hi \<Longrightarrow> clampf v lo hi = (if fgt v hi then hi else if flt v lo then lo else v)"
  by (cases v; cases lo; cases hi) (auto simp: clampf_def fgt_def)

text \<open>
  C7: the claim is that \<open>clampf\<close> returns the lower bound whenever the bounds are crossed,
  for every value. The bounds 3 and 1 are crossed, and \<open>clampf\<close> of NaN between them is
  NaN: neither comparison of the source holds of NaN, so the value is returned as it came.
\<close>

theorem clampf_NaN_crossed:
  "fgt (Fin 3) (Fin 1) \<and> clampf NaN (Fin 3) (Fin 1) = NaN \<and> clampf NaN (Fin 3) (Fin 1) \<noteq> Fin 3"
  by (simp add: clampf_def fgt_def)

text \<open>
  C10: clamping twice with the same bounds is clamping once, for all values and all
  bounds, crossed or not, NaN and the infinities included.
\<close>

theorem clampf_idempotent: "clampf (clampf v lo hi) lo hi = clampf v lo hi"
  by (cases v; cases lo; cases hi) (auto simp: clampf_def fgt_def)

subsection \<open>Euclidean modulus\<close>

lemma sint_word_of_int_cint:
  assumes "INT_MIN \<le> k" and "k \<le> INT_MAX"
  shows "sint (word_of_int k :: cint) = k"
  using assms
  by (simp add: sint_sbintrunc' signed_take_bit_int_eq_self INT_MIN_def INT_MAX_def)

lemma sint_cint_range: "INT_MIN \<le> sint (w :: cint) \<and> sint w \<le> INT_MAX"
  using sint_ge [of w] sint_lt [of w] by (simp add: INT_MIN_def INT_MAX_def)

lemma smod_pos_bounds:
  fixes a b :: int
  assumes "0 < b"
  shows "- b < a smod b" and "a smod b < b"
proof -
  define m where "m = \<bar>a\<bar> mod b"
  have m: "0 \<le> m" "m < b" using assms by (simp_all add: m_def)
  have "\<bar>b\<bar> = b" using assms by simp
  then have eq: "a smod b = sgn a * m" by (simp add: smod_int_alt_def m_def)
  consider "a < 0" | "a = 0" | "0 < a" by linarith
  then have "- b < sgn a * m \<and> sgn a * m < b"
  proof cases
    case 1
    then show ?thesis using m by simp
  next
    case 2
    then show ?thesis using assms by simp
  next
    case 3
    then show ?thesis using m by simp
  qed
  then show "- b < a smod b" and "a smod b < b" by (simp_all add: eq)
qed

lemma c_rem_pos:
  assumes "0 < sint base"
  shows "\<exists>md. c_rem a base = Some md \<and> sint md = sint a smod sint base"
proof -
  let ?m = "sint a smod sint base"
  have b: "sint base \<le> INT_MAX" using sint_cint_range by blast
  have "- sint base < ?m" "?m < sint base" using smod_pos_bounds [OF assms] by simp_all
  then have "INT_MIN \<le> ?m" "?m \<le> INT_MAX" using b by (simp_all add: INT_MIN_def INT_MAX_def)
  then have "sint (word_of_int ?m :: cint) = ?m" by (rule sint_word_of_int_cint)
  then show ?thesis using assms by (simp add: c_rem_def)
qed

lemma c_add_in_range:
  assumes "INT_MIN \<le> sint a + sint b" "sint a + sint b \<le> INT_MAX"
  shows "\<exists>r. c_add a b = Some r \<and> sint r = sint a + sint b"
proof -
  have "sint (a + b) = sint a + sint b"
    using assms
    by (simp add: sint_word_add signed_take_bit_int_eq_self INT_MIN_def INT_MAX_def)
  then show ?thesis using assms by (simp add: c_add_def)
qed

lemma eucMod_positive_base:
  assumes "0 < sint base"
  shows "\<exists>r. eucMod a base = Some r \<and> 0 \<le> sint r \<and> sint r < sint base"
proof -
  obtain md where md: "c_rem a base = Some md" "sint md = sint a smod sint base"
    using c_rem_pos [OF assms] by blast
  have lo: "- sint base < sint md" and hi: "sint md < sint base"
    using smod_pos_bounds [OF assms, of "sint a"] md(2) by simp_all
  show ?thesis
  proof (cases "sint md < 0")
    case True
    have b: "sint base \<le> INT_MAX" using sint_cint_range by blast
    have "INT_MIN \<le> sint md + sint base" "sint md + sint base \<le> INT_MAX"
      using lo True b by (simp_all add: INT_MIN_def)
    then obtain r where "c_add md base = Some r" "sint r = sint md + sint base"
      using c_add_in_range by blast
    then show ?thesis using md(1) True lo by (simp add: eucMod_def)
  next
    case False
    then show ?thesis using md(1) hi by (simp add: eucMod_def)
  qed
qed

lemma eucMod_examples:
  "eucMod (- 1) 4 = Some 3" "eucMod 5 4 = Some 1" "c_rem (- 1) 4 = Some (- 1)"
  by (simp_all add: eucMod_def c_rem_def c_add_def INT_MIN_def INT_MAX_def
      signed_modulo_int_def)

text \<open>
  C8: for every \<open>a\<close> and every positive \<open>base\<close>, \<open>eucMod a base\<close> is defined and lies
  in \<open>[0, base)\<close>. In particular \<open>eucMod (-1) 4 = 3\<close> and \<open>eucMod 5 4 = 1\<close>, where
  the truncating remainder of \<open>-1\<close> by \<open>4\<close> is \<open>-1\<close>.
\<close>

theorem eucMod_range:
  "(0 < sint base \<longrightarrow>
      (\<exists>r. eucMod a base = Some r \<and> 0 \<le> sint r \<and> sint r < sint base))
   \<and> eucMod (- 1) 4 = Some 3 \<and> eucMod 5 4 = Some 1 \<and> c_rem (- 1) 4 = Some (- 1)"
  using eucMod_positive_base [where base = base and a = a] eucMod_examples by blast

theorem eucMod_range_witness:
  "0 < sint (3 :: cint) \<and> eucMod (- 7) 3 = Some 2 \<and> c_rem (- 7) 3 = Some (- 1)"
  using eucMod_range [where base = 3 and a = "- 7"]
  by (simp add: eucMod_def c_rem_def c_add_def INT_MIN_def INT_MAX_def signed_modulo_int_def)

subsection \<open>Interpolation in an array\<close>

lemma float_to_int_nonneg: "0 \<le> v \<Longrightarrow> float_to_int v = \<lfloor>v\<rfloor>"
  by (simp add: float_to_int_def)

text \<open>
  With a non-negative index and both elements \<open>p[floor v]\<close> and \<open>p[floor v + 1]\<close> inside
  the array, \<open>interpf\<close> returns the linear interpolation between them.
\<close>

lemma interpf_in_bounds:
  assumes "0 \<le> v" and "\<lfloor>v\<rfloor> + 2 \<le> int (length p)"
  shows "interpf p v =
     Some ((1 - (v - of_int \<lfloor>v\<rfloor>)) * p ! nat \<lfloor>v\<rfloor> + (v - of_int \<lfloor>v\<rfloor>) * p ! nat (\<lfloor>v\<rfloor> + 1))"
proof -
  have f: "0 \<le> \<lfloor>v\<rfloor>" using assms(1) by simp
  have "read_at p \<lfloor>v\<rfloor> = Some (p ! nat \<lfloor>v\<rfloor>)"
    using f assms(2) by (simp add: read_at_def)
  moreover have "read_at p (\<lfloor>v\<rfloor> + 1) = Some (p ! nat (\<lfloor>v\<rfloor> + 1))"
    using f assms(2) by (simp add: read_at_def)
  ultimately show ?thesis
    using assms(1) by (simp add: interpf_def float_to_int_nonneg crossf_def Let_def)
qed

text \<open>
  At an index that is a whole number \<open>n\<close>, an array of \<open>ceil n + 1 = n + 1\<close> elements is
  too short: the read of \<open>p[n + 1]\<close> is outside it.
\<close>

lemma interpf_integer_index:
  assumes "0 \<le> n" and "int (length p) = n + 1"
  shows "\<lceil>(of_int n :: real)\<rceil> + 1 \<le> int (length p) \<and> interpf p (of_int n) = None"
  using assms by (simp add: interpf_def float_to_int_def read_at_def)

text \<open>
  C9: the claim is that \<open>interpf p v\<close> returns the interpolation between \<open>p[floor v]\<close> and
  \<open>p[floor v + 1]\<close> whenever \<open>p\<close> has at least \<open>ceil v + 1\<close> elements. The array
  \<open>[1]\<close> has \<open>ceil 0 + 1\<close> elements, and \<open>interpf [1] 0\<close> reads \<open>p[1]\<close>, outside the
  array.
\<close>

theorem interpf_reads_past_end:
  "\<lceil>0::real\<rceil> + 1 \<le> int (length [1::real]) \<and> interpf [1] 0 = None"
  by (simp add: interpf_def float_to_int_def read_at_def)

section \<open>Properties of rectangles\<close>

lemma Vec_Fin_simps [simp]: "x (Vec_Fin v) = Fin (x v)" "y (Vec_Fin v) = Fin (y v)"
  by (simp_all add: Vec_Fin_def)

lemma Rect_Fin_simps [simp]:
  "pos (Rect_Fin r) = Vec_Fin (pos r)" "size_v (Rect_Fin r) = Vec_Fin (size_v r)"
  by (simp_all add: Rect_Fin_def)

lemma rect_at_simps [simp]:
  "x (pos (rect_at px py w h)) = px" "y (pos (rect_at px py w h)) = py"
  "x (size_v (rect_at px py w h)) = w" "y (size_v (rect_at px py w h)) = h"
  by (simp_all add: rect_at_def)

text \<open>
  C5, as stated: \<open>Rect_contains\<close> is the half-open test with the exact sums. For the
  rectangle at \<open>(2^24, 0)\<close> of size 1 by 1 the sum \<open>2^24 + 1\<close> rounds to \<open>2^24\<close>, and
  the rectangle does not contain its own corner \<open>(2^24, 0)\<close>.
\<close>

theorem Rect_contains_counterexample:
  "\<not> (Rect_contains (Rect_Fin (rect_at 16777216 0 1 1)) (Vec_Fin \<lparr>x = 16777216, y = 0\<rparr>)
       \<longleftrightarrow> spec_contains (rect_at 16777216 0 1 1) \<lparr>x = 16777216, y = 0\<rparr>)"
  by (simp add: Rect_contains_def spec_contains_def to_float_big)

text \<open>
  C5, amended: \<open>Rect_contains\<close> is half-open between the position and the sum of position
  and size as the float addition gives it: a point is inside when each coordinate is at
  or after the position and strictly before that sum, a comparison with NaN being false.
  For finite coordinates whose two sums are exact this is the half-open test of the
  specification. The rectangle at the origin of size 10 by 10 does not contain
  \<open>(10, 5)\<close> and contains \<open>(0, 5)\<close>.
\<close>

theorem Rect_contains_half_open:
  "(Rect_contains r v \<longleftrightarrow>
      fle (x (pos r)) (x v) \<and> flt (x v) (fadd (x (pos r)) (x (size_v r)))
      \<and> fle (y (pos r)) (y v) \<and> flt (y v) (fadd (y (pos r)) (y (size_v r))))
   \<and> (exact_add (x (pos R)) (x (size_v R)) \<and> exact_add (y (pos R)) (y (size_v R)) \<longrightarrow>
        (Rect_contains (Rect_Fin R) (Vec_Fin V) \<longleftrightarrow> spec_contains R V))
   \<and> \<not> Rect_contains (Rect_Fin (rect_at 0 0 10 10)) (Vec_Fin \<lparr>x = 10, y = 5\<rparr>)
   \<and> Rect_contains (Rect_Fin (rect_at 0 0 10 10)) (Vec_Fin \<lparr>x = 0, y = 5\<rparr>)"
proof -
  have "Rect_contains (Rect_Fin R) (Vec_Fin V) \<longleftrightarrow> spec_contains R V"
    if "exact_add (x (pos R)) (x (size_v R))" "exact_add (y (pos R)) (y (size_v R))"
    using that by (simp add: Rect_contains_def spec_contains_def exact_add_def)
  moreover have "\<not> Rect_contains (Rect_Fin (rect_at 0 0 10 10)) (Vec_Fin \<lparr>x = 10, y = 5\<rparr>)"
    by (simp add: Rect_contains_def to_float_numeral)
  moreover have "Rect_contains (Rect_Fin (rect_at 0 0 10 10)) (Vec_Fin \<lparr>x = 0, y = 5\<rparr>)"
    by (simp add: Rect_contains_def to_float_numeral)
  ultimately show ?thesis
    by (simp add: Rect_contains_def)
qed

theorem Rect_contains_half_open_witness:
  "exact_add (x (pos (rect_at 2 3 4 5))) (x (size_v (rect_at 2 3 4 5)))
   \<and> exact_add (y (pos (rect_at 2 3 4 5))) (y (size_v (rect_at 2 3 4 5)))
   \<and> Rect_contains (Rect_Fin (rect_at 2 3 4 5)) (Vec_Fin \<lparr>x = 2, y = 7\<rparr>)
   \<and> spec_contains (rect_at 2 3 4 5) \<lparr>x = 2, y = 7\<rparr>
   \<and> \<not> Rect_contains (Rect_Fin (rect_at 2 3 4 5)) (Vec_Fin \<lparr>x = 6, y = 7\<rparr>)
   \<and> \<not> spec_contains (rect_at 2 3 4 5) \<lparr>x = 6, y = 7\<rparr>"
  using Rect_contains_half_open [where R = "rect_at 2 3 4 5" and V = "\<lparr>x = 2, y = 7\<rparr>"]
    Rect_contains_half_open [where R = "rect_at 2 3 4 5" and V = "\<lparr>x = 6, y = 7\<rparr>"]
  by (simp add: exact_add_def to_float_numeral spec_contains_def)

lemma open_overlap_iff:
  "open_overlap l1 h1 l2 h2 \<longleftrightarrow> (\<exists>t. l1 < t \<and> t < h1 \<and> l2 < t \<and> t < h2)"
proof
  assume ov: "open_overlap l1 h1 l2 h2"
  define m where "m = max l1 l2"
  define h where "h = min h1 h2"
  have "m < h" using ov by (simp add: open_overlap_def m_def h_def)
  then have "m < (m + h) / 2" "(m + h) / 2 < h" by simp_all
  moreover have "l1 \<le> m" "l2 \<le> m" "h \<le> h1" "h \<le> h2"
    by (simp_all add: m_def h_def)
  ultimately have "l1 < (m + h) / 2 \<and> (m + h) / 2 < h1 \<and> l2 < (m + h) / 2 \<and> (m + h) / 2 < h2"
    by linarith
  then show "\<exists>t. l1 < t \<and> t < h1 \<and> l2 < t \<and> t < h2" ..
next
  assume "\<exists>t. l1 < t \<and> t < h1 \<and> l2 < t \<and> t < h2"
  then show "open_overlap l1 h1 l2 h2" by (auto simp: open_overlap_def)
qed

lemma open_overlap_positive:
  assumes "l1 < h1" "l2 < h2"
  shows "open_overlap l1 h1 l2 h2 \<longleftrightarrow> l2 < h1 \<and> l1 < h2"
  using assms by (auto simp: open_overlap_def)

text \<open>
  C6, as stated: for all rectangles, \<open>Rect_intersects\<close> holds exactly when the open
  intervals of the two rectangles overlap on both axes. It fails for a rectangle of size
  zero lying within another, whose open intervals are empty while \<open>Rect_intersects\<close>
  holds; and it fails for the rectangle at \<open>(2^24, 0)\<close> of size 1 by 1 and itself,
  whose open intervals overlap while the sum \<open>2^24 + 1\<close> rounds to \<open>2^24\<close> and
  \<open>Rect_intersects\<close> does not hold.
\<close>

theorem Rect_intersects_counterexample:
  "\<not> (Rect_intersects (Rect_Fin (rect_at 5 5 0 0)) (Rect_Fin (rect_at 0 0 10 10))
        \<longleftrightarrow> spec_intersects (rect_at 5 5 0 0) (rect_at 0 0 10 10))
   \<and> \<not> (Rect_intersects (Rect_Fin (rect_at 16777216 0 1 1)) (Rect_Fin (rect_at 16777216 0 1 1))
        \<longleftrightarrow> spec_intersects (rect_at 16777216 0 1 1) (rect_at 16777216 0 1 1))"
  by (simp add: Rect_intersects_def spec_intersects_def open_overlap_def fgt_def
      to_float_numeral to_float_big)

text \<open>
  C6, amended: \<open>Rect_intersects\<close> holds exactly when, on both axes, the sum of position
  and size of each rectangle, as the float addition gives it, is greater than the
  position of the other. For rectangles of finite coordinates and positive width and
  height whose four sums are exact, this is the case exactly when the open intervals of
  the two rectangles overlap on both axes. Two rectangles of finite coordinates of which
  the exact sum of position and size of one is the position of the other on an axis do not
  intersect.
\<close>

theorem Rect_intersects_open_overlap:
  "(Rect_intersects a r \<longleftrightarrow>
      (fgt (fadd (x (pos a)) (x (size_v a))) (x (pos r))
         \<and> fgt (fadd (x (pos r)) (x (size_v r))) (x (pos a)))
      \<and> (fgt (fadd (y (pos a)) (y (size_v a))) (y (pos r))
         \<and> fgt (fadd (y (pos r)) (y (size_v r))) (y (pos a))))
   \<and> (exact_add (x (pos A)) (x (size_v A)) \<and> exact_add (y (pos A)) (y (size_v A))
        \<and> exact_add (x (pos R)) (x (size_v R)) \<and> exact_add (y (pos R)) (y (size_v R))
        \<and> 0 < x (size_v A) \<and> 0 < y (size_v A) \<and> 0 < x (size_v R) \<and> 0 < y (size_v R) \<longrightarrow>
      (Rect_intersects (Rect_Fin A) (Rect_Fin R) \<longleftrightarrow> spec_intersects A R))
   \<and> (exact_add (x (pos A)) (x (size_v A)) \<and> x (pos A) + x (size_v A) = x (pos R) \<longrightarrow>
        \<not> Rect_intersects (Rect_Fin A) (Rect_Fin R))
   \<and> (exact_add (x (pos R)) (x (size_v R)) \<and> x (pos R) + x (size_v R) = x (pos A) \<longrightarrow>
        \<not> Rect_intersects (Rect_Fin A) (Rect_Fin R))
   \<and> (exact_add (y (pos A)) (y (size_v A)) \<and> y (pos A) + y (size_v A) = y (pos R) \<longrightarrow>
        \<not> Rect_intersects (Rect_Fin A) (Rect_Fin R))
   \<and> (exact_add (y (pos R)) (y (size_v R)) \<and> y (pos R) + y (size_v R) = y (pos A) \<longrightarrow>
        \<not> Rect_intersects (Rect_Fin A) (Rect_Fin R))"
proof -
  have "Rect_intersects (Rect_Fin A) (Rect_Fin R) \<longleftrightarrow> spec_intersects A R"
    if "exact_add (x (pos A)) (x (size_v A))" "exact_add (y (pos A)) (y (size_v A))"
      "exact_add (x (pos R)) (x (size_v R))" "exact_add (y (pos R)) (y (size_v R))"
      "0 < x (size_v A)" "0 < y (size_v A)" "0 < x (size_v R)" "0 < y (size_v R)"
    using that
    by (simp add: Rect_intersects_def spec_intersects_def open_overlap_positive
        exact_add_def fgt_def)
  moreover have "\<not> Rect_intersects (Rect_Fin A) (Rect_Fin R)"
    if "exact_add (x (pos A)) (x (size_v A))" "x (pos A) + x (size_v A) = x (pos R)"
    using that by (simp add: Rect_intersects_def exact_add_def fgt_def)
  moreover have "\<not> Rect_intersects (Rect_Fin A) (Rect_Fin R)"
    if "exact_add (x (pos R)) (x (size_v R))" "x (pos R) + x (size_v R) = x (pos A)"
    using that by (simp add: Rect_intersects_def exact_add_def fgt_def)
  moreover have "\<not> Rect_intersects (Rect_Fin A) (Rect_Fin R)"
    if "exact_add (y (pos A)) (y (size_v A))" "y (pos A) + y (size_v A) = y (pos R)"
    using that by (simp add: Rect_intersects_def exact_add_def fgt_def)
  moreover have "\<not> Rect_intersects (Rect_Fin A) (Rect_Fin R)"
    if "exact_add (y (pos R)) (y (size_v R))" "y (pos R) + y (size_v R) = y (pos A)"
    using that by (simp add: Rect_intersects_def exact_add_def fgt_def)
  ultimately show ?thesis
    unfolding Rect_intersects_def [of a r] by blast
qed

theorem Rect_intersects_open_overlap_witness:
  "exact_add (x (pos (rect_at 0 0 10 10))) (x (size_v (rect_at 0 0 10 10)))
   \<and> exact_add (y (pos (rect_at 0 0 10 10))) (y (size_v (rect_at 0 0 10 10)))
   \<and> exact_add (x (pos (rect_at 5 5 10 10))) (x (size_v (rect_at 5 5 10 10)))
   \<and> exact_add (y (pos (rect_at 5 5 10 10))) (y (size_v (rect_at 5 5 10 10)))
   \<and> 0 < x (size_v (rect_at 0 0 10 10)) \<and> 0 < y (size_v (rect_at 0 0 10 10))
   \<and> 0 < x (size_v (rect_at 5 5 10 10)) \<and> 0 < y (size_v (rect_at 5 5 10 10))
   \<and> Rect_intersects (Rect_Fin (rect_at 0 0 10 10)) (Rect_Fin (rect_at 5 5 10 10))
   \<and> spec_intersects (rect_at 0 0 10 10) (rect_at 5 5 10 10)
   \<and> x (pos (rect_at 0 0 10 10)) + x (size_v (rect_at 0 0 10 10)) = x (pos (rect_at 10 0 10 10))
   \<and> \<not> Rect_intersects (Rect_Fin (rect_at 0 0 10 10)) (Rect_Fin (rect_at 10 0 10 10))
   \<and> exact_add (x (pos (rect_at (- 10) 0 10 10))) (x (size_v (rect_at (- 10) 0 10 10)))
   \<and> x (pos (rect_at (- 10) 0 10 10)) + x (size_v (rect_at (- 10) 0 10 10))
       = x (pos (rect_at 0 0 10 10))
   \<and> \<not> Rect_intersects (Rect_Fin (rect_at 0 0 10 10)) (Rect_Fin (rect_at (- 10) 0 10 10))
   \<and> y (pos (rect_at 0 0 10 10)) + y (size_v (rect_at 0 0 10 10)) = y (pos (rect_at 0 10 10 10))
   \<and> \<not> Rect_intersects (Rect_Fin (rect_at 0 0 10 10)) (Rect_Fin (rect_at 0 10 10 10))
   \<and> exact_add (y (pos (rect_at 0 (- 10) 10 10))) (y (size_v (rect_at 0 (- 10) 10 10)))
   \<and> y (pos (rect_at 0 (- 10) 10 10)) + y (size_v (rect_at 0 (- 10) 10 10))
       = y (pos (rect_at 0 0 10 10))
   \<and> \<not> Rect_intersects (Rect_Fin (rect_at 0 0 10 10)) (Rect_Fin (rect_at 0 (- 10) 10 10))"
  using
    Rect_intersects_open_overlap [where A = "rect_at 0 0 10 10" and R = "rect_at 5 5 10 10"]
    Rect_intersects_open_overlap [where A = "rect_at 0 0 10 10" and R = "rect_at 10 0 10 10"]
    Rect_intersects_open_overlap [where A = "rect_at 0 0 10 10" and R = "rect_at (- 10) 0 10 10"]
    Rect_intersects_open_overlap [where A = "rect_at 0 0 10 10" and R = "rect_at 0 10 10 10"]
    Rect_intersects_open_overlap [where A = "rect_at 0 0 10 10" and R = "rect_at 0 (- 10) 10 10"]
  by (simp add: exact_add_def to_float_numeral spec_intersects_def open_overlap_def
      Rect_intersects_def fgt_def)

lemma flt_PInf [simp]: "flt PInf b = False"
  by (cases b) simp_all

lemma flt_MInf [simp]: "flt a MInf = False"
  by (cases a) simp_all

lemma clampf_Fin:
  "clampf (Fin p) (Fin lo) (Fin hi) =
     Fin (let p1 = (if p > hi then hi else p) in if p1 < lo then lo else p1)"
  by (simp add: clampf_def fgt_def Let_def)

text \<open>
  With the sum \<open>bp + bs\<close> and the difference \<open>bp + bs - s\<close> exact, the clamped coordinate
  is the clamp of the specification.
\<close>

lemma clamp_coord_exact:
  assumes "exact_add bp bs" and "exact_sub (bp + bs) s"
  shows "clampf (Fin p) (Fin bp) (fsub (fadd (Fin bp) (Fin bs)) (Fin s))
     = Fin (spec_clamp_coord p s bp bs)"
proof -
  have "fsub (fadd (Fin bp) (Fin bs)) (Fin s) = Fin (bp + bs - s)"
    using assms by (simp add: exact_add_def exact_sub_def)
  then show ?thesis
    by (simp only: clampf_Fin) (auto simp: spec_clamp_coord_def Let_def)
qed

text \<open>
  On one axis: a point inside a rectangle that lies between the position of a bound and
  the bound's exact far edge is inside the bound.
\<close>

lemma axis_inside:
  assumes ex: "exact_add bp bs"
    and lo: "bp \<le> rp" and hi: "rp + s \<le> bp + bs"
    and c1: "fle (Fin rp) v" and c2: "flt v (fadd (Fin rp) (Fin s))"
  shows "fle (Fin bp) v \<and> flt v (fadd (Fin bp) (Fin bs))"
proof -
  have e: "round32 (bp + bs) = bp + bs" and ub: "bp + bs < 2 ^ 128"
    using exact_add_round [OF ex] by simp_all
  have r: "round32 (rp + s) \<le> bp + bs"
    using hi e by (rule round32_le_exact)
  obtain u where v: "v = Fin u" and u1: "rp \<le> u"
    using c1 c2 by (cases v) simp_all
  have "flt (Fin u) (to_float (rp + s))" using c2 v by simp
  then have "u < bp + bs"
    using r ub by (auto simp: to_float_def Let_def split: if_splits)
  then show ?thesis using ex lo u1 v by (simp add: exact_add_def)
qed

text \<open>
  C4, as stated: when the rectangle is no larger than the bound, each coordinate of the
  position is clamped to the interval of the specification and the clamped rectangle
  lies inside the bound; where it is larger, the position is the bound's. For the
  rectangle at \<open>(16777222, 0)\<close> of size 3 by 3 and the bound at the origin of size
  16777222 by 10, the difference \<open>16777222 - 3\<close> rounds to \<open>16777220\<close>: the clamped
  rectangle is at \<open>(16777220, 0)\<close>, beyond the specification's \<open>16777219\<close>, and it
  contains the point \<open>(16777222, 1)\<close>, which the bound does not. For the rectangle
  at \<open>(16777214, 0)\<close> of size 6.5 by 1 and the bound at \<open>(16777213, 0)\<close> of size 6 by
  10, the sum \<open>16777213 + 6\<close> rounds to \<open>16777220\<close> and the difference
  \<open>16777220 - 6.5\<close> to \<open>16777214\<close>: the rectangle is wider than the bound and
  stays at \<open>16777214\<close>, not at the bound's \<open>16777213\<close>.
\<close>

theorem Rect_clamp_counterexample:
  "x (size_v (rect_at 16777222 0 3 3)) \<le> x (size_v (rect_at 0 0 16777222 10))
   \<and> y (size_v (rect_at 16777222 0 3 3)) \<le> y (size_v (rect_at 0 0 16777222 10))
   \<and> pos (Rect_clamp (Rect_Fin (rect_at 16777222 0 3 3)) (Rect_Fin (rect_at 0 0 16777222 10)))
       = \<lparr>x = Fin 16777220, y = Fin 0\<rparr>
   \<and> spec_clamp_coord 16777222 3 0 16777222 = 16777219
   \<and> Rect_contains
       (Rect_clamp (Rect_Fin (rect_at 16777222 0 3 3)) (Rect_Fin (rect_at 0 0 16777222 10)))
       (Vec_Fin \<lparr>x = 16777222, y = 1\<rparr>)
   \<and> \<not> Rect_contains (Rect_Fin (rect_at 0 0 16777222 10)) (Vec_Fin \<lparr>x = 16777222, y = 1\<rparr>)
   \<and> x (size_v (rect_at 16777214 0 (13 / 2) 1)) > x (size_v (rect_at 16777213 0 6 10))
   \<and> x (pos (Rect_clamp (Rect_Fin (rect_at 16777214 0 (13 / 2) 1))
          (Rect_Fin (rect_at 16777213 0 6 10)))) = Fin 16777214
   \<and> x (pos (Rect_Fin (rect_at 16777213 0 6 10))) = Fin 16777213"
  by (simp add: Rect_clamp_def Rect_contains_def clampf_def fgt_def to_float_numeral
      to_float_big spec_clamp_coord_def)

text \<open>
  C4, amended: \<open>Rect_clamp\<close> keeps the size. For a rectangle and a bound of finite
  coordinates such that, on both axes, the sum of the bound's position and size and the
  difference of that sum and the rectangle's size are exact: each coordinate of the
  position of the result is the old one clamped to the interval from the bound's position
  to the bound's position plus the bound's size minus the rectangle's size where the
  rectangle is no larger than the bound on that axis, and the bound's position where it
  is larger; and when the rectangle is no larger than the bound on both axes, every point
  of the result (in the half-open sense of \<open>Rect_contains\<close>) is a point of the bound.
\<close>

theorem Rect_clamp_inside:
  "size_v (Rect_clamp r b) = size_v r
   \<and> (exact_add (x (pos B)) (x (size_v B))
        \<and> exact_sub (x (pos B) + x (size_v B)) (x (size_v R))
        \<and> exact_add (y (pos B)) (y (size_v B))
        \<and> exact_sub (y (pos B) + y (size_v B)) (y (size_v R)) \<longrightarrow>
      Rect_clamp (Rect_Fin R) (Rect_Fin B) =
        Rect_Fin
          \<lparr>pos = \<lparr>x = spec_clamp_coord (x (pos R)) (x (size_v R)) (x (pos B)) (x (size_v B)),
                  y = spec_clamp_coord (y (pos R)) (y (size_v R)) (y (pos B)) (y (size_v B))\<rparr>,
           size_v = size_v R\<rparr>
      \<and> (x (size_v R) \<le> x (size_v B) \<and> y (size_v R) \<le> y (size_v B) \<longrightarrow>
           (\<forall>v. Rect_contains (Rect_clamp (Rect_Fin R) (Rect_Fin B)) v \<longrightarrow>
                Rect_contains (Rect_Fin B) v)))"
proof (intro conjI impI)
  show "size_v (Rect_clamp r b) = size_v r"
    by (simp add: Rect_clamp_def)
next
  assume ex: "exact_add (x (pos B)) (x (size_v B))
        \<and> exact_sub (x (pos B) + x (size_v B)) (x (size_v R))
        \<and> exact_add (y (pos B)) (y (size_v B))
        \<and> exact_sub (y (pos B) + y (size_v B)) (y (size_v R))"
  define cx where "cx = spec_clamp_coord (x (pos R)) (x (size_v R)) (x (pos B)) (x (size_v B))"
  define cy where "cy = spec_clamp_coord (y (pos R)) (y (size_v R)) (y (pos B)) (y (size_v B))"
  have px: "clampf (Fin (x (pos R))) (Fin (x (pos B)))
      (fsub (fadd (Fin (x (pos B))) (Fin (x (size_v B)))) (Fin (x (size_v R)))) = Fin cx"
    unfolding cx_def using ex by (intro clamp_coord_exact) simp_all
  have py: "clampf (Fin (y (pos R))) (Fin (y (pos B)))
      (fsub (fadd (Fin (y (pos B))) (Fin (y (size_v B)))) (Fin (y (size_v R)))) = Fin cy"
    unfolding cy_def using ex by (intro clamp_coord_exact) simp_all
  show eq: "Rect_clamp (Rect_Fin R) (Rect_Fin B) =
      Rect_Fin \<lparr>pos = \<lparr>x = cx, y = cy\<rparr>, size_v = size_v R\<rparr>"
    unfolding Rect_clamp_def Rect_Fin_simps Vec_Fin_simps px py
    by (simp add: Rect_Fin_def Vec_Fin_def)
  assume le: "x (size_v R) \<le> x (size_v B) \<and> y (size_v R) \<le> y (size_v B)"
  have bx: "x (pos B) \<le> cx \<and> cx + x (size_v R) \<le> x (pos B) + x (size_v B)"
    using le by (auto simp: cx_def spec_clamp_coord_def)
  have "by": "y (pos B) \<le> cy \<and> cy + y (size_v R) \<le> y (pos B) + y (size_v B)"
    using le by (auto simp: cy_def spec_clamp_coord_def)
  show "\<forall>v. Rect_contains (Rect_clamp (Rect_Fin R) (Rect_Fin B)) v \<longrightarrow>
      Rect_contains (Rect_Fin B) v"
  proof (intro allI impI)
    fix v
    assume c: "Rect_contains (Rect_clamp (Rect_Fin R) (Rect_Fin B)) v"
    then have cx1: "fle (Fin cx) (x v)" and cx2: "flt (x v) (fadd (Fin cx) (Fin (x (size_v R))))"
      and cy1: "fle (Fin cy) (y v)" and cy2: "flt (y v) (fadd (Fin cy) (Fin (y (size_v R))))"
      unfolding eq by (simp_all add: Rect_contains_def)
    have "fle (Fin (x (pos B))) (x v) \<and> flt (x v) (fadd (Fin (x (pos B))) (Fin (x (size_v B))))"
      using ex bx cx1 cx2 by (intro axis_inside) simp_all
    moreover
    have "fle (Fin (y (pos B))) (y v) \<and> flt (y v) (fadd (Fin (y (pos B))) (Fin (y (size_v B))))"
      using ex "by" cy1 cy2 by (intro axis_inside) simp_all
    ultimately show "Rect_contains (Rect_Fin B) v"
      by (simp add: Rect_contains_def)
  qed
qed

theorem Rect_clamp_inside_witness:
  "exact_add (x (pos (rect_at 0 0 10 10))) (x (size_v (rect_at 0 0 10 10)))
   \<and> exact_sub (x (pos (rect_at 0 0 10 10)) + x (size_v (rect_at 0 0 10 10)))
       (x (size_v (rect_at 8 (- 3) 4 4)))
   \<and> exact_add (y (pos (rect_at 0 0 10 10))) (y (size_v (rect_at 0 0 10 10)))
   \<and> exact_sub (y (pos (rect_at 0 0 10 10)) + y (size_v (rect_at 0 0 10 10)))
       (y (size_v (rect_at 8 (- 3) 4 4)))
   \<and> x (size_v (rect_at 8 (- 3) 4 4)) \<le> x (size_v (rect_at 0 0 10 10))
   \<and> y (size_v (rect_at 8 (- 3) 4 4)) \<le> y (size_v (rect_at 0 0 10 10))
   \<and> Rect_clamp (Rect_Fin (rect_at 8 (- 3) 4 4)) (Rect_Fin (rect_at 0 0 10 10))
       = Rect_Fin (rect_at 6 0 4 4)
   \<and> Rect_contains (Rect_Fin (rect_at 6 0 4 4)) (Vec_Fin \<lparr>x = 9, y = 0\<rparr>)
   \<and> Rect_contains (Rect_Fin (rect_at 0 0 10 10)) (Vec_Fin \<lparr>x = 9, y = 0\<rparr>)
   \<and> Rect_clamp (Rect_Fin (rect_at 2 5 4 4)) (Rect_Fin (rect_at 0 0 10 10))
       = Rect_Fin (rect_at 2 5 4 4)
   \<and> exact_sub (x (pos (rect_at 0 0 10 10)) + x (size_v (rect_at 0 0 10 10)))
       (x (size_v (rect_at 3 3 20 20)))
   \<and> exact_sub (y (pos (rect_at 0 0 10 10)) + y (size_v (rect_at 0 0 10 10)))
       (y (size_v (rect_at 3 3 20 20)))
   \<and> Rect_clamp (Rect_Fin (rect_at 3 3 20 20)) (Rect_Fin (rect_at 0 0 10 10))
       = Rect_Fin (rect_at 0 0 20 20)"
proof -
  let ?R = "rect_at 8 (- 3) 4 4" and ?B = "rect_at 0 0 10 10"
  let ?R2 = "rect_at 2 5 4 4" and ?R3 = "rect_at 3 3 20 20"
  have ex: "exact_add (x (pos ?B)) (x (size_v ?B))
      \<and> exact_sub (x (pos ?B) + x (size_v ?B)) (x (size_v ?R))
      \<and> exact_add (y (pos ?B)) (y (size_v ?B))
      \<and> exact_sub (y (pos ?B) + y (size_v ?B)) (y (size_v ?R))"
    by (simp add: exact_add_def exact_sub_def to_float_numeral)
  have ex2: "exact_add (x (pos ?B)) (x (size_v ?B))
      \<and> exact_sub (x (pos ?B) + x (size_v ?B)) (x (size_v ?R2))
      \<and> exact_add (y (pos ?B)) (y (size_v ?B))
      \<and> exact_sub (y (pos ?B) + y (size_v ?B)) (y (size_v ?R2))"
    by (simp add: exact_add_def exact_sub_def to_float_numeral)
  have ex3: "exact_add (x (pos ?B)) (x (size_v ?B))
      \<and> exact_sub (x (pos ?B) + x (size_v ?B)) (x (size_v ?R3))
      \<and> exact_add (y (pos ?B)) (y (size_v ?B))
      \<and> exact_sub (y (pos ?B) + y (size_v ?B)) (y (size_v ?R3))"
    by (simp add: exact_add_def exact_sub_def to_float_numeral to_float_neg_numeral)
  have le: "x (size_v ?R) \<le> x (size_v ?B) \<and> y (size_v ?R) \<le> y (size_v ?B)"
    by simp
  have c: "Rect_contains (Rect_Fin (rect_at 6 0 4 4)) (Vec_Fin \<lparr>x = 9, y = 0\<rparr>)"
    by (simp add: Rect_contains_def to_float_numeral)
  from Rect_clamp_inside [where R = ?R and B = ?B] ex le
  have eq: "Rect_clamp (Rect_Fin ?R) (Rect_Fin ?B) =
      Rect_Fin
        \<lparr>pos = \<lparr>x = spec_clamp_coord (x (pos ?R)) (x (size_v ?R)) (x (pos ?B)) (x (size_v ?B)),
                y = spec_clamp_coord (y (pos ?R)) (y (size_v ?R)) (y (pos ?B)) (y (size_v ?B))\<rparr>,
         size_v = size_v ?R\<rparr>"
    and inside: "\<forall>v. Rect_contains (Rect_clamp (Rect_Fin ?R) (Rect_Fin ?B)) v \<longrightarrow>
        Rect_contains (Rect_Fin ?B) v"
    by blast+
  have eq': "Rect_clamp (Rect_Fin ?R) (Rect_Fin ?B) = Rect_Fin (rect_at 6 0 4 4)"
    unfolding eq by (simp add: spec_clamp_coord_def rect_at_def)
  have b: "Rect_contains (Rect_Fin ?B) (Vec_Fin \<lparr>x = 9, y = 0\<rparr>)"
    using inside c unfolding eq' by blast
  from Rect_clamp_inside [where R = ?R2 and B = ?B] ex2
  have "Rect_clamp (Rect_Fin ?R2) (Rect_Fin ?B) =
      Rect_Fin
        \<lparr>pos = \<lparr>x = spec_clamp_coord (x (pos ?R2)) (x (size_v ?R2)) (x (pos ?B)) (x (size_v ?B)),
                y = spec_clamp_coord (y (pos ?R2)) (y (size_v ?R2)) (y (pos ?B)) (y (size_v ?B))\<rparr>,
         size_v = size_v ?R2\<rparr>"
    by blast
  then have eq2: "Rect_clamp (Rect_Fin ?R2) (Rect_Fin ?B) = Rect_Fin (rect_at 2 5 4 4)"
    by (simp add: spec_clamp_coord_def rect_at_def)
  from Rect_clamp_inside [where R = ?R3 and B = ?B] ex3
  have "Rect_clamp (Rect_Fin ?R3) (Rect_Fin ?B) =
      Rect_Fin
        \<lparr>pos = \<lparr>x = spec_clamp_coord (x (pos ?R3)) (x (size_v ?R3)) (x (pos ?B)) (x (size_v ?B)),
                y = spec_clamp_coord (y (pos ?R3)) (y (size_v ?R3)) (y (pos ?B)) (y (size_v ?B))\<rparr>,
         size_v = size_v ?R3\<rparr>"
    by blast
  then have eq3: "Rect_clamp (Rect_Fin ?R3) (Rect_Fin ?B) = Rect_Fin (rect_at 0 0 20 20)"
    by (simp add: spec_clamp_coord_def rect_at_def)
  show ?thesis using ex ex3 le eq' c b eq2 eq3 by blast
qed

section \<open>Properties of the transform accumulator\<close>







section \<open>Properties of the rotary control node\<close>

lemma rescalef_mapf: "rescalef v xMin xMax yMin yMax = mapf v xMin xMax yMin yMax"
  by (simp add: rescalef_def mapf_def)

lemma FramebufferWidget_step_tw: "tw (FramebufferWidget_step k) = tw k"
  by (simp add: FramebufferWidget_step_def)

lemma SVGKnob_step_dirty_tw:
  assumes "dirty k"
  shows "tw (SVGKnob_step k) =
     TransformWidget_translate (Vec_neg (Rect_getCenter (sw_box k)))
       (TransformWidget_rotate
          (rescalef (value (knob k)) (minValue (knob k)) (maxValue (knob k))
             (minAngle k) (maxAngle k))
          (TransformWidget_translate (Rect_getCenter (sw_box k))
             (TransformWidget_scale (Vec_div_vec (size_v (box k)) (size_v (sw_box k)))
                (TransformWidget_identity (tw k)))))"
  using assms by (simp add: SVGKnob_step_def FramebufferWidget_step_tw Let_def)





text \<open>
  C3: after \<open>SVGKnob_onChange\<close> the dirty flag is set, whatever the state before and
  whatever \<open>Knob::onChange\<close> does to the fields of the base class.
\<close>

theorem SVGKnob_onChange_sets_dirty: "dirty (SVGKnob_onChange Knob_onChange k)"
  by (simp add: SVGKnob_onChange_def)

text \<open>
  The step that follows \<open>SVGKnob_onChange\<close> therefore rebuilds the transform, from the
  value that \<open>Knob::onChange\<close> left in the node.
\<close>

lemma SVGKnob_step_after_onChange:
  "tw (SVGKnob_step (SVGKnob_onChange Knob_onChange k)) =
     TransformWidget_translate (Vec_neg (Rect_getCenter (sw_box k)))
       (TransformWidget_rotate
          (rescalef (value (Knob_onChange (knob k))) (minValue (Knob_onChange (knob k)))
             (maxValue (Knob_onChange (knob k))) (minAngle k) (maxAngle k))
          (TransformWidget_translate (Rect_getCenter (sw_box k))
             (TransformWidget_scale (Vec_div_vec (size_v (box k)) (size_v (sw_box k)))
                (TransformWidget_identity (tw k)))))"
proof -
  have d: "dirty (SVGKnob_onChange Knob_onChange k)"
    by (simp add: SVGKnob_onChange_def)
  show ?thesis
    unfolding SVGKnob_step_dirty_tw [OF d]
    by (simp add: SVGKnob_onChange_def TransformWidget_identity_def)
qed

end
